theory Spec2Isabelle
  imports Complex_Main
begin

section \<open>Errors\<close>

text \<open>
  Every \<^verbatim>\<open>raise RuntimeError(...)\<close> of the sources is the configuration error of the
  specification. The other constructors are the exceptions Python and numpy raise by
  themselves on the paths the sources leave unguarded: a numpy broadcast failure
  (\<^verbatim>\<open>ValueError\<close>), \<^verbatim>\<open>len\<close> of a float or a float conversion of an array
  (\<^verbatim>\<open>TypeError\<close>), and an attribute read on \<^verbatim>\<open>None\<close> (\<^verbatim>\<open>AttributeError\<close>).
  Python floats are modelled as reals.
\<close>

datatype error = RuntimeError | ValueError | TypeError | AttributeError

definition bind_e :: "error + 'a \<Rightarrow> ('a \<Rightarrow> error + 'b) \<Rightarrow> error + 'b" where
  "bind_e r f = (case r of Inl e \<Rightarrow> Inl e | Inr x \<Rightarrow> f x)"

section \<open>ModifiedJulianDate.py\<close>

text \<open>
  \<^verbatim>\<open>astropy.time.Time(x, scale=s, format='mjd')\<close> is a value and a scale. The
  conversions of astropy between time scales are not part of the repository: they are
  the fields of \<open>astropy\<close>, a parameter of every reader. A conversion that can raise
  (UT1 and UT1-UTC, outside the IERS table) returns an option, \<open>None\<close> for the raise.
\<close>

datatype scale = scale_tai | scale_utc

record Time =
  time_val :: real
  time_scale :: scale

text \<open>
  \<^verbatim>\<open>get_delta_ut1_utc()\<close> returns either a quantity with a \<^verbatim>\<open>.value\<close> or a
  plain number, on which \<^verbatim>\<open>.value\<close> raises.
\<close>

datatype delta = Quantity real | Plain real

record astropy =
  tai_mjd :: "Time \<Rightarrow> real"
  utc_mjd :: "Time \<Rightarrow> real"
  ut1_mjd :: "Time \<Rightarrow> real option"
  tt_mjd :: "Time \<Rightarrow> real"
  tdb_mjd :: "Time \<Rightarrow> real"
  get_delta_ut1_utc :: "Time \<Rightarrow> delta option"

text \<open>The attributes \<^verbatim>\<open>_time\<close>, \<^verbatim>\<open>_tai\<close>, ... of the class, without the underscore.\<close>

record ModifiedJulianDate =
  m_time :: Time
  m_tai :: "real option"
  m_utc :: "real option"
  m_tt :: "real option"
  m_tdb :: "real option"
  m_ut1 :: "real option"
  m_dut1 :: "real option"

text \<open>\<^verbatim>\<open>ModifiedJulianDate.__init__(self, TAI=None, UTC=None)\<close>\<close>

definition ModifiedJulianDate_init :: "real option \<Rightarrow> real option \<Rightarrow> error + ModifiedJulianDate" where
  "ModifiedJulianDate_init TAI UTC =
     (if TAI = None \<and> UTC = None then Inl RuntimeError
      else
        (case TAI of
           Some t \<Rightarrow>
             Inr \<lparr>m_time = \<lparr>time_val = t, time_scale = scale_tai\<rparr>,
                  m_tai = Some t, m_utc = None,
                  m_tt = None, m_tdb = None, m_ut1 = None, m_dut1 = None\<rparr>
         | None \<Rightarrow>
             (case UTC of
                Some u \<Rightarrow>
                  Inr \<lparr>m_time = \<lparr>time_val = u, time_scale = scale_utc\<rparr>,
                       m_tai = None, m_utc = Some u,
                       m_tt = None, m_tdb = None, m_ut1 = None, m_dut1 = None\<rparr>
              | None \<Rightarrow> Inl RuntimeError)))"

text \<open>
  The properties read a cached field and fill it on the first access: each returns
  its value and the updated object. \<open>UT1\<close> and \<open>dut1\<close> also return the warnings
  they emit; the warning carries the UTC printed in its message.
\<close>

datatype warning = OutsideIERS real

definition TAI :: "astropy \<Rightarrow> ModifiedJulianDate \<Rightarrow> real \<times> ModifiedJulianDate" where
  "TAI ap self =
     (case m_tai self of
        None \<Rightarrow> (let v = tai_mjd ap (m_time self) in (v, self\<lparr>m_tai := Some v\<rparr>))
      | Some v \<Rightarrow> (v, self))"

definition UTC :: "astropy \<Rightarrow> ModifiedJulianDate \<Rightarrow> real \<times> ModifiedJulianDate" where
  "UTC ap self =
     (case m_utc self of
        None \<Rightarrow> (let v = utc_mjd ap (m_time self) in (v, self\<lparr>m_utc := Some v\<rparr>))
      | Some v \<Rightarrow> (v, self))"

definition UT1 :: "astropy \<Rightarrow> ModifiedJulianDate \<Rightarrow> real \<times> ModifiedJulianDate \<times> warning list" where
  "UT1 ap self =
     (case m_ut1 self of
        None \<Rightarrow>
          (case ut1_mjd ap (m_time self) of
             Some v \<Rightarrow> (v, self\<lparr>m_ut1 := Some v\<rparr>, [])
           | None \<Rightarrow>
               (let (u, self1) = UTC ap self;
                    (u', self2) = UTC ap self1
                in (u', self2\<lparr>m_ut1 := Some u'\<rparr>, [OutsideIERS u])))
      | Some v \<Rightarrow> (v, self, []))"

definition dut1 :: "astropy \<Rightarrow> ModifiedJulianDate \<Rightarrow> real \<times> ModifiedJulianDate \<times> warning list" where
  "dut1 ap self =
     (case m_dut1 self of
        None \<Rightarrow>
          (case get_delta_ut1_utc ap (m_time self) of
             Some intermediate_value \<Rightarrow>
               (case intermediate_value of
                  Quantity v \<Rightarrow> (v, self\<lparr>m_dut1 := Some v\<rparr>, [])
                | Plain v \<Rightarrow> (v, self\<lparr>m_dut1 := Some v\<rparr>, []))
           | None \<Rightarrow>
               (let (u, self1) = UTC ap self
                in (0, self1\<lparr>m_dut1 := Some 0\<rparr>, [OutsideIERS u])))
      | Some v \<Rightarrow> (v, self, []))"

definition TT :: "astropy \<Rightarrow> ModifiedJulianDate \<Rightarrow> real \<times> ModifiedJulianDate" where
  "TT ap self =
     (case m_tt self of
        None \<Rightarrow> (let v = tt_mjd ap (m_time self) in (v, self\<lparr>m_tt := Some v\<rparr>))
      | Some v \<Rightarrow> (v, self))"

definition TDB :: "astropy \<Rightarrow> ModifiedJulianDate \<Rightarrow> real \<times> ModifiedJulianDate" where
  "TDB ap self =
     (case m_tdb self of
        None \<Rightarrow> (let v = tdb_mjd ap (m_time self) in (v, self\<lparr>m_tdb := Some v\<rparr>))
      | Some v \<Rightarrow> (v, self))"

section \<open>Values, numpy and the helpers of the package\<close>

text \<open>
  An argument documented as "a float or a numpy array (not a list)" is a \<open>pyval\<close>.
  An argument documented as "must be a numpy array" is a \<open>real list\<close>, and a
  two-row array \<^verbatim>\<open>numpy.array([raOut, decOut])\<close> is a pair of rows.
\<close>

datatype pyval = Float real | NdArray "real list" | PyList "real list"

definition radians :: "real \<Rightarrow> real" where
  "radians x = x * pi / 180"

definition degrees :: "real \<Rightarrow> real" where
  "degrees x = x * 180 / pi"

text \<open>numpy functions of one argument turn a list into an array.\<close>

fun np_map :: "(real \<Rightarrow> real) \<Rightarrow> pyval \<Rightarrow> pyval" where
  "np_map f (Float x) = Float (f x)"
| "np_map f (NdArray xs) = NdArray (map f xs)"
| "np_map f (PyList xs) = NdArray (map f xs)"

definition np_radians :: "pyval \<Rightarrow> pyval" where
  "np_radians v = np_map radians v"

definition np_degrees :: "pyval \<Rightarrow> pyval" where
  "np_degrees v = np_map degrees v"

definition np_cos :: "pyval \<Rightarrow> pyval" where
  "np_cos v = np_map cos v"

text \<open>
  \<^verbatim>\<open>a / b\<close> on one-dimensional arrays: numpy broadcasts an array of length one
  against the other operand, and raises \<^verbatim>\<open>ValueError\<close> when the lengths differ
  otherwise.
\<close>

definition div_arrays :: "real list \<Rightarrow> real list \<Rightarrow> error + real list" where
  "div_arrays xs ys =
     (if length xs = length ys then Inr (map2 (/) xs ys)
      else if length xs = 1 then Inr (map (\<lambda>y. hd xs / y) ys)
      else if length ys = 1 then Inr (map (\<lambda>x. x / hd ys) xs)
      else Inl ValueError)"

text \<open>A list is no operand of \<^verbatim>\<open>/\<close> with a float, and becomes an array against an array.\<close>

fun np_div :: "pyval \<Rightarrow> pyval \<Rightarrow> error + pyval" where
  "np_div (Float x) (Float y) = Inr (Float (x / y))"
| "np_div (Float x) (NdArray ys) = Inr (NdArray (map (\<lambda>y. x / y) ys))"
| "np_div (NdArray xs) (Float y) = Inr (NdArray (map (\<lambda>x. x / y) xs))"
| "np_div (NdArray xs) (NdArray ys) = map_sum id NdArray (div_arrays xs ys)"
| "np_div (PyList xs) (NdArray ys) = map_sum id NdArray (div_arrays xs ys)"
| "np_div (NdArray xs) (PyList ys) = map_sum id NdArray (div_arrays xs ys)"
| "np_div (PyList xs) (Float y) = Inl TypeError"
| "np_div (Float x) (PyList ys) = Inl TypeError"
| "np_div (PyList xs) (PyList ys) = Inl TypeError"

text \<open>\<^verbatim>\<open>isinstance(v, list)\<close>, \<^verbatim>\<open>hasattr(v, '__len__')\<close>, \<^verbatim>\<open>len(v)\<close>\<close>

fun is_list :: "pyval \<Rightarrow> bool" where
  "is_list (PyList xs) = True"
| "is_list v = False"

fun has_len :: "pyval \<Rightarrow> bool" where
  "has_len (Float x) = False"
| "has_len v = True"

fun py_len :: "pyval \<Rightarrow> error + nat" where
  "py_len (Float x) = Inl TypeError"
| "py_len (NdArray xs) = Inr (length xs)"
| "py_len (PyList xs) = Inr (length xs)"

text \<open>
  A primitive of palpy declared with \<^verbatim>\<open>double\<close> arguments converts what it is
  given: a float, or an array of one element.
\<close>

fun as_float :: "pyval \<Rightarrow> error + real" where
  "as_float (Float x) = Inr x"
| "as_float (NdArray xs) = (if length xs = 1 then Inr (hd xs) else Inl TypeError)"
| "as_float (PyList xs) = Inl TypeError"

text \<open>A primitive of palpy declared with array arguments refuses anything else.\<close>

fun as_array :: "pyval \<Rightarrow> error + real list" where
  "as_array (NdArray xs) = Inr xs"
| "as_array v = Inl TypeError"

text \<open>
  Modelled from the spec: \<^verbatim>\<open>arcsecFromRadians\<close> and \<^verbatim>\<open>radiansFromArcsec\<close> of
  \<^verbatim>\<open>lsst.sims.utils\<close>, the "arcsecond/radian conversion utilities" of the
  specification, whose source file is not among the sources: elementwise conversions
  between radians and arcseconds (3600 to the degree).
\<close>

definition arcsecFromRadians :: "real \<Rightarrow> real" where
  "arcsecFromRadians x = 3600 * degrees x"

definition radiansFromArcsec :: "real \<Rightarrow> real" where
  "radiansFromArcsec x = radians (x / 3600)"

text \<open>
  The other helpers of \<^verbatim>\<open>lsst.sims.utils\<close> the module imports and whose source file
  is not among the sources are parameters. \<^verbatim>\<open>cartesianFromSpherical\<close> returns one
  vector for floats and one row per star for arrays.
\<close>

datatype xyzval = Vec "real list" | Rows "real list list"

record coord_utils =
  cartesianFromSpherical :: "pyval \<Rightarrow> pyval \<Rightarrow> xyzval"
  sphericalFromCartesian :: "xyzval \<Rightarrow> pyval \<times> pyval"
  haversine :: "pyval \<Rightarrow> pyval \<Rightarrow> pyval \<Rightarrow> pyval \<Rightarrow> pyval"

text \<open>\<^verbatim>\<open>numpy.dot(rmat, xyz.transpose()).transpose()\<close>\<close>

definition mat_vec :: "real list list \<Rightarrow> real list \<Rightarrow> real list" where
  "mat_vec rmat v = map (\<lambda>row. sum_list (map2 (*) row v)) rmat"

fun rotate :: "real list list \<Rightarrow> xyzval \<Rightarrow> xyzval" where
  "rotate rmat (Vec v) = Vec (mat_vec rmat v)"
| "rotate rmat (Rows rs) = Rows (map (mat_vec rmat) rs)"

section \<open>The primitives of palpy\<close>

text \<open>
  The astronomy library is not part of the repository: its routines are the fields of
  \<open>palpy\<close>, a parameter of every function that calls one. Each field has the
  arguments of the routine in the routine's order. A field is a total function: what a
  routine raises on arguments it refuses (rows of unequal length) is outside the model,
  and no theorem below rests on a routine returning on such arguments.
\<close>

record palpy =
  pal_mappa :: "real \<Rightarrow> real \<Rightarrow> real list"
  pal_dcc2s :: "real list \<Rightarrow> real \<times> real"
  pal_refco :: "real \<Rightarrow> real \<Rightarrow> real \<Rightarrow> real \<Rightarrow> real \<Rightarrow> real \<Rightarrow> real \<Rightarrow> real \<Rightarrow> real \<times> real"
  pal_refz :: "real \<Rightarrow> real \<Rightarrow> real \<Rightarrow> real"
  pal_refzVector :: "real list \<Rightarrow> real \<Rightarrow> real \<Rightarrow> real list"
  pal_prenut :: "real \<Rightarrow> real \<Rightarrow> real list list"
  pal_epj :: "real \<Rightarrow> real"
  pal_pm :: "real \<Rightarrow> real \<Rightarrow> real \<Rightarrow> real \<Rightarrow> real \<Rightarrow> real \<Rightarrow> real \<Rightarrow> real \<Rightarrow> real \<times> real"
  pal_pmVector :: "real list \<Rightarrow> real list \<Rightarrow> real list \<Rightarrow> real list \<Rightarrow> real list \<Rightarrow> real list
                   \<Rightarrow> real \<Rightarrow> real \<Rightarrow> real list \<times> real list"
  pal_mapqkVector :: "real list \<Rightarrow> real list \<Rightarrow> real list \<Rightarrow> real list \<Rightarrow> real list \<Rightarrow> real list
                      \<Rightarrow> real list \<Rightarrow> real list \<times> real list"
  pal_ampqkVector :: "real list \<Rightarrow> real list \<Rightarrow> real list \<Rightarrow> real list \<times> real list"
  pal_aoppa :: "real \<Rightarrow> real \<Rightarrow> real \<Rightarrow> real \<Rightarrow> real \<Rightarrow> real \<Rightarrow> real \<Rightarrow> real \<Rightarrow> real \<Rightarrow> real \<Rightarrow> real
                \<Rightarrow> real \<Rightarrow> real list"
  pal_aopqkVector :: "real list \<Rightarrow> real list \<Rightarrow> real list
                      \<Rightarrow> real list \<times> real list \<times> real list \<times> real list \<times> real list"
  pal_oapqkVector :: "char \<Rightarrow> real list \<Rightarrow> real list \<Rightarrow> real list \<Rightarrow> real list \<times> real list"
  pal_de2hVector :: "real list \<Rightarrow> real list \<Rightarrow> real \<Rightarrow> real list \<times> real list"

section \<open>Site and ObservationMetaData\<close>

text \<open>
  The attributes of a \<^verbatim>\<open>Site\<close> the module reads. The class is not among the
  sources; \<^verbatim>\<open>temperature\<close> and \<^verbatim>\<open>temperature_kelvin\<close> are two of its attributes.
\<close>

record Site =
  longitude_rad :: real
  latitude_rad :: real
  height :: real
  temperature :: real
  temperature_kelvin :: real
  pressure :: real
  humidity :: real
  lapseRate :: real

text \<open>The two properties of an \<^verbatim>\<open>ObservationMetaData\<close> the module reads.\<close>

record ObservationMetaData =
  om_site :: "Site option"
  om_mjd :: "ModifiedJulianDate option"

section \<open>AstrometryUtils.py\<close>

text \<open>
  A function \<^verbatim>\<open>_f\<close> of the module is \<open>u_f\<close> here, and its public wrapper \<^verbatim>\<open>f\<close>
  keeps its name. A function that reads a time scale of a \<^verbatim>\<open>ModifiedJulianDate\<close>
  uses the value the property returns; the filled cache and the warnings are no part
  of its result.
\<close>

definition u_solarRaDec :: "palpy \<Rightarrow> real \<Rightarrow> real \<Rightarrow> real \<times> real" where
  "u_solarRaDec pal mjd epoch =
     (let params = pal_mappa pal epoch mjd
      in pal_dcc2s pal (map (\<lambda>x. - 1 * x) (take 3 (drop 4 params))))"

definition solarRaDec :: "palpy \<Rightarrow> real \<Rightarrow> real \<Rightarrow> real \<times> real" where
  "solarRaDec pal mjd epoch =
     (case u_solarRaDec pal mjd epoch of
        (solarRA, solarDec) \<Rightarrow> (degrees solarRA, degrees solarDec))"

definition u_distanceToSun :: "coord_utils \<Rightarrow> palpy \<Rightarrow> pyval \<Rightarrow> pyval \<Rightarrow> real \<Rightarrow> real \<Rightarrow> pyval" where
  "u_distanceToSun cu pal ra dec mjd epoch =
     (case u_solarRaDec pal mjd epoch of
        (sunRa, sunDec) \<Rightarrow>
          (case py_len ra of
             Inr n \<Rightarrow>
               haversine cu ra dec (NdArray (replicate n sunRa)) (NdArray (replicate n sunDec))
           | Inl e \<Rightarrow> haversine cu ra dec (Float sunRa) (Float sunDec)))"

definition distanceToSun :: "coord_utils \<Rightarrow> palpy \<Rightarrow> pyval \<Rightarrow> pyval \<Rightarrow> real \<Rightarrow> real \<Rightarrow> pyval" where
  "distanceToSun cu pal ra dec mjd epoch =
     np_degrees (u_distanceToSun cu pal (np_radians ra) (np_radians dec) mjd epoch)"

definition refractionCoefficients :: "palpy \<Rightarrow> real \<Rightarrow> Site option \<Rightarrow> error + real \<times> real" where
  "refractionCoefficients pal wavelength site =
     (let precision = 1 / 10 ^ 10 in
      case site of
        None \<Rightarrow> Inl RuntimeError
      | Some s \<Rightarrow>
          (let refcoOutput =
                 pal_refco pal (height s) (temperature_kelvin s) (pressure s) (humidity s)
                   wavelength (latitude_rad s) (lapseRate s) precision
           in Inr (fst refcoOutput, snd refcoOutput)))"

definition applyRefraction :: "palpy \<Rightarrow> pyval \<Rightarrow> real \<Rightarrow> real \<Rightarrow> error + pyval" where
  "applyRefraction pal zenithDistance tanzCoeff tan3zCoeff =
     (case zenithDistance of
        PyList zs \<Rightarrow> Inl RuntimeError
      | NdArray zs \<Rightarrow> Inr (NdArray (pal_refzVector pal zs tanzCoeff tan3zCoeff))
      | Float z \<Rightarrow> Inr (Float (pal_refz pal z tanzCoeff tan3zCoeff)))"

definition u_applyPrecession ::
  "coord_utils \<Rightarrow> palpy \<Rightarrow> astropy \<Rightarrow> pyval \<Rightarrow> pyval \<Rightarrow> real \<Rightarrow> ModifiedJulianDate option
   \<Rightarrow> error + pyval \<times> pyval" where
  "u_applyPrecession cu pal ap ra dec epoch mjd =
     bind_e
       (if has_len ra
        then bind_e (py_len ra) (\<lambda>n. bind_e (py_len dec) (\<lambda>k.
               if n \<noteq> k then Inl RuntimeError else Inr ()))
        else Inr ())
       (\<lambda>u. case mjd of
          None \<Rightarrow> Inl RuntimeError
        | Some m \<Rightarrow>
            (let rmat = pal_prenut pal epoch (fst (TT ap m));
                 xyz = cartesianFromSpherical cu ra dec;
                 xyz' = rotate rmat xyz
             in case sphericalFromCartesian cu xyz' of
                  (raOut, decOut) \<Rightarrow> Inr (raOut, decOut)))"

definition applyPrecession ::
  "coord_utils \<Rightarrow> palpy \<Rightarrow> astropy \<Rightarrow> pyval \<Rightarrow> pyval \<Rightarrow> real \<Rightarrow> ModifiedJulianDate option
   \<Rightarrow> error + pyval \<times> pyval" where
  "applyPrecession cu pal ap ra dec epoch mjd =
     bind_e (u_applyPrecession cu pal ap (np_radians ra) (np_radians dec) epoch mjd)
       (\<lambda>output. Inr (map_prod np_degrees np_degrees output))"

definition u_applyProperMotion ::
  "palpy \<Rightarrow> astropy \<Rightarrow> pyval \<Rightarrow> pyval \<Rightarrow> pyval \<Rightarrow> pyval \<Rightarrow> pyval \<Rightarrow> pyval \<Rightarrow> real
   \<Rightarrow> ModifiedJulianDate option \<Rightarrow> error + pyval \<times> pyval" where
  "u_applyProperMotion pal ap ra dec pm_ra pm_dec parallax v_rad epoch mjd =
     (if is_list ra \<or> is_list dec \<or> is_list pm_ra \<or> is_list pm_dec
         \<or> is_list parallax \<or> is_list v_rad
      then Inl RuntimeError
      else
        (case mjd of
           None \<Rightarrow> Inl RuntimeError
         | Some m \<Rightarrow>
             (let parallaxArcsec = np_map arcsecFromRadians parallax;
                  julianEpoch = pal_epj pal (fst (TT ap m))
              in bind_e (np_div pm_ra (np_cos dec)) (\<lambda>pm_ra_corrected.
                   case ra of
                     NdArray ras \<Rightarrow>
                       bind_e (py_len dec) (\<lambda>n_dec.
                       bind_e (py_len pm_ra) (\<lambda>n_pm_ra.
                       bind_e (py_len pm_dec) (\<lambda>n_pm_dec.
                       bind_e (py_len parallaxArcsec) (\<lambda>n_parallax.
                       bind_e (py_len v_rad) (\<lambda>n_v_rad.
                         if length ras \<noteq> n_dec \<or> length ras \<noteq> n_pm_ra
                            \<or> length ras \<noteq> n_pm_dec \<or> length ras \<noteq> n_parallax
                            \<or> length ras \<noteq> n_v_rad
                         then Inl RuntimeError
                         else
                           bind_e (as_array dec) (\<lambda>a_dec.
                           bind_e (as_array pm_ra_corrected) (\<lambda>a_pm_ra.
                           bind_e (as_array pm_dec) (\<lambda>a_pm_dec.
                           bind_e (as_array parallaxArcsec) (\<lambda>a_parallax.
                           bind_e (as_array v_rad) (\<lambda>a_v_rad.
                             case pal_pmVector pal ras a_dec a_pm_ra a_pm_dec a_parallax
                                    a_v_rad epoch julianEpoch of
                               (raOut, decOut) \<Rightarrow> Inr (NdArray raOut, NdArray decOut)))))))))))
                   | _ \<Rightarrow>
                       bind_e (as_float ra) (\<lambda>f_ra.
                       bind_e (as_float dec) (\<lambda>f_dec.
                       bind_e (as_float pm_ra_corrected) (\<lambda>f_pm_ra.
                       bind_e (as_float pm_dec) (\<lambda>f_pm_dec.
                       bind_e (as_float parallaxArcsec) (\<lambda>f_parallax.
                       bind_e (as_float v_rad) (\<lambda>f_v_rad.
                         case pal_pm pal f_ra f_dec f_pm_ra f_pm_dec f_parallax f_v_rad
                                epoch julianEpoch of
                           (raOut, decOut) \<Rightarrow> Inr (Float raOut, Float decOut)))))))))))"

definition applyProperMotion ::
  "palpy \<Rightarrow> astropy \<Rightarrow> pyval \<Rightarrow> pyval \<Rightarrow> pyval \<Rightarrow> pyval \<Rightarrow> pyval \<Rightarrow> pyval \<Rightarrow> real
   \<Rightarrow> ModifiedJulianDate option \<Rightarrow> error + pyval \<times> pyval" where
  "applyProperMotion pal ap ra dec pm_ra pm_dec parallax v_rad epoch mjd =
     bind_e
       (u_applyProperMotion pal ap (np_radians ra) (np_radians dec)
          (np_map radiansFromArcsec pm_ra) (np_map radiansFromArcsec pm_dec)
          (np_map radiansFromArcsec parallax) v_rad epoch mjd)
       (\<lambda>output. Inr (map_prod np_degrees np_degrees output))"

definition u_appGeoFromICRS ::
  "palpy \<Rightarrow> astropy \<Rightarrow> real list \<Rightarrow> real list \<Rightarrow> real list option \<Rightarrow> real list option
   \<Rightarrow> real list option \<Rightarrow> real list option \<Rightarrow> real \<Rightarrow> ModifiedJulianDate option
   \<Rightarrow> error + real list \<times> real list" where
  "u_appGeoFromICRS pal ap ra dec pm_ra pm_dec parallax v_rad epoch mjd =
     (case mjd of
        None \<Rightarrow> Inl RuntimeError
      | Some m \<Rightarrow>
          (if length ra \<noteq> length dec then Inl RuntimeError
           else
             (let pm_ra1 = (case pm_ra of None \<Rightarrow> replicate (length ra) 0 | Some a \<Rightarrow> a);
                  pm_dec1 = (case pm_dec of None \<Rightarrow> replicate (length ra) 0 | Some a \<Rightarrow> a);
                  v_rad1 = (case v_rad of None \<Rightarrow> replicate (length ra) 0 | Some a \<Rightarrow> a);
                  parallax1 = (case parallax of None \<Rightarrow> replicate (length ra) 0 | Some a \<Rightarrow> a);
                  prms = pal_mappa pal epoch (fst (TDB ap m))
              in bind_e (div_arrays pm_ra1 (map cos dec)) (\<lambda>pm_ra_corrected.
                   Inr (pal_mapqkVector pal ra dec pm_ra_corrected pm_dec1
                          (map arcsecFromRadians parallax1) v_rad1 prms)))))"

definition appGeoFromICRS ::
  "palpy \<Rightarrow> astropy \<Rightarrow> real list \<Rightarrow> real list \<Rightarrow> real list option \<Rightarrow> real list option
   \<Rightarrow> real list option \<Rightarrow> real list option \<Rightarrow> real \<Rightarrow> ModifiedJulianDate option
   \<Rightarrow> error + real list \<times> real list" where
  "appGeoFromICRS pal ap ra dec pm_ra pm_dec parallax v_rad epoch mjd =
     (let pm_ra_in = (case pm_ra of Some a \<Rightarrow> Some (map radiansFromArcsec a) | None \<Rightarrow> None);
          pm_dec_in = (case pm_dec of Some a \<Rightarrow> Some (map radiansFromArcsec a) | None \<Rightarrow> None);
          px_in = (case parallax of Some a \<Rightarrow> Some (map radiansFromArcsec a) | None \<Rightarrow> None)
      in bind_e
           (u_appGeoFromICRS pal ap (map radians ra) (map radians dec) pm_ra_in pm_dec_in
              px_in v_rad epoch mjd)
           (\<lambda>output. Inr (map_prod (map degrees) (map degrees) output)))"

definition u_icrsFromAppGeo ::
  "palpy \<Rightarrow> astropy \<Rightarrow> real list \<Rightarrow> real list \<Rightarrow> real \<Rightarrow> ModifiedJulianDate option
   \<Rightarrow> error + real list \<times> real list" where
  "u_icrsFromAppGeo pal ap ra dec epoch mjd =
     (case mjd of
        None \<Rightarrow> Inl AttributeError
      | Some m \<Rightarrow>
          (let params = pal_mappa pal epoch (fst (TDB ap m))
           in Inr (pal_ampqkVector pal ra dec params)))"

definition icrsFromAppGeo ::
  "palpy \<Rightarrow> astropy \<Rightarrow> real list \<Rightarrow> real list \<Rightarrow> real \<Rightarrow> ModifiedJulianDate option
   \<Rightarrow> error + real list \<times> real list" where
  "icrsFromAppGeo pal ap ra dec epoch mjd =
     bind_e (u_icrsFromAppGeo pal ap (map radians ra) (map radians dec) epoch mjd)
       (\<lambda>(raOut, decOut). Inr (map degrees raOut, map degrees decOut))"

text \<open>
  \<^verbatim>\<open>_calculateObservatoryParameters\<close> reads \<^verbatim>\<open>obs_metadata.mjd.UTC\<close> and
  \<^verbatim>\<open>obs_metadata.site.longitude_rad\<close> with no test of its own: on \<^verbatim>\<open>None\<close> the
  attribute read raises.
\<close>

definition u_calculateObservatoryParameters ::
  "palpy \<Rightarrow> astropy \<Rightarrow> ObservationMetaData \<Rightarrow> real \<Rightarrow> bool \<Rightarrow> error + real list" where
  "u_calculateObservatoryParameters pal ap obs_metadata wavelength includeRefraction =
     (let xPolar = 0; yPolar = 0 in
      case om_mjd obs_metadata of
        None \<Rightarrow> Inl AttributeError
      | Some m \<Rightarrow>
          (case om_site obs_metadata of
             None \<Rightarrow> Inl AttributeError
           | Some s \<Rightarrow>
               (if includeRefraction = True
                then Inr (pal_aoppa pal (fst (UTC ap m)) (fst (dut1 ap m))
                            (longitude_rad s) (latitude_rad s) (height s)
                            xPolar yPolar
                            (temperature_kelvin s) (pressure s) (humidity s)
                            wavelength (lapseRate s))
                else Inr (pal_aoppa pal (fst (UTC ap m)) (fst (dut1 ap m))
                            (longitude_rad s) (latitude_rad s) (height s)
                            xPolar yPolar
                            (temperature s) 0 0
                            wavelength (lapseRate s)))))"

text \<open>
  The result of \<^verbatim>\<open>_observedFromAppGeo\<close> is the observed RA and Dec, and the altitude
  and azimuth when \<^verbatim>\<open>altAzHr\<close> is set.
\<close>

definition u_observedFromAppGeo ::
  "palpy \<Rightarrow> astropy \<Rightarrow> real list \<Rightarrow> real list \<Rightarrow> bool \<Rightarrow> bool \<Rightarrow> real
   \<Rightarrow> ObservationMetaData option
   \<Rightarrow> error + (real list \<times> real list) \<times> (real list \<times> real list) option" where
  "u_observedFromAppGeo pal ap ra dec includeRefraction altAzHr wavelength obs_metadata =
     (case obs_metadata of
        None \<Rightarrow> Inl RuntimeError
      | Some om \<Rightarrow>
          (case om_site om of
             None \<Rightarrow> Inl RuntimeError
           | Some s \<Rightarrow>
               (if om_mjd om = None then Inl RuntimeError
                else if length ra \<noteq> length dec then Inl RuntimeError
                else
                  bind_e (u_calculateObservatoryParameters pal ap om wavelength includeRefraction)
                    (\<lambda>obsPrms.
                       case pal_aopqkVector pal ra dec obsPrms of
                         (azimuth, zenith, hourAngle, decOut, raOut) \<Rightarrow>
                           (if altAzHr = True
                            then (case pal_de2hVector pal hourAngle decOut (latitude_rad s) of
                                    (az, alt) \<Rightarrow> Inr ((raOut, decOut), Some (alt, az)))
                            else Inr ((raOut, decOut), None))))))"

definition observedFromAppGeo ::
  "palpy \<Rightarrow> astropy \<Rightarrow> real list \<Rightarrow> real list \<Rightarrow> bool \<Rightarrow> bool \<Rightarrow> real
   \<Rightarrow> ObservationMetaData option
   \<Rightarrow> error + (real list \<times> real list) \<times> (real list \<times> real list) option" where
  "observedFromAppGeo pal ap ra dec includeRefraction altAzHr wavelength obs_metadata =
     bind_e
       (u_observedFromAppGeo pal ap (map radians ra) (map radians dec) includeRefraction
          altAzHr wavelength obs_metadata)
       (\<lambda>(raDec, altAz).
          Inr (map_prod (map degrees) (map degrees) raDec,
               map_option (map_prod (map degrees) (map degrees)) altAz))"

definition u_appGeoFromObserved ::
  "palpy \<Rightarrow> astropy \<Rightarrow> real list \<Rightarrow> real list \<Rightarrow> bool \<Rightarrow> real \<Rightarrow> ObservationMetaData option
   \<Rightarrow> error + real list \<times> real list" where
  "u_appGeoFromObserved pal ap ra dec includeRefraction wavelength obs_metadata =
     (case obs_metadata of
        None \<Rightarrow> Inl RuntimeError
      | Some om \<Rightarrow>
          (if om_site om = None then Inl RuntimeError
           else if om_mjd om = None then Inl RuntimeError
           else if length ra \<noteq> length dec then Inl RuntimeError
           else
             bind_e (u_calculateObservatoryParameters pal ap om wavelength includeRefraction)
               (\<lambda>obsPrms.
                  case pal_oapqkVector pal (CHR ''r'') ra dec obsPrms of
                    (raOut, decOut) \<Rightarrow> Inr (raOut, decOut))))"

definition appGeoFromObserved ::
  "palpy \<Rightarrow> astropy \<Rightarrow> real list \<Rightarrow> real list \<Rightarrow> bool \<Rightarrow> real \<Rightarrow> ObservationMetaData option
   \<Rightarrow> error + real list \<times> real list" where
  "appGeoFromObserved pal ap ra dec includeRefraction wavelength obs_metadata =
     bind_e
       (u_appGeoFromObserved pal ap (map radians ra) (map radians dec) includeRefraction
          wavelength obs_metadata)
       (\<lambda>(raOut, decOut). Inr (map degrees raOut, map degrees decOut))"

text \<open>
  The two composed transforms call the stages with their defaults: \<^verbatim>\<open>altAzHr=False\<close>
  and \<^verbatim>\<open>wavelength=0.5\<close>.
\<close>

definition u_observedFromICRS ::
  "palpy \<Rightarrow> astropy \<Rightarrow> real list \<Rightarrow> real list \<Rightarrow> real list option \<Rightarrow> real list option
   \<Rightarrow> real list option \<Rightarrow> real list option \<Rightarrow> ObservationMetaData option \<Rightarrow> real option
   \<Rightarrow> bool \<Rightarrow> error + real list \<times> real list" where
  "u_observedFromICRS pal ap ra dec pm_ra pm_dec parallax v_rad obs_metadata epoch
     includeRefraction =
     (case obs_metadata of
        None \<Rightarrow> Inl RuntimeError
      | Some om \<Rightarrow>
          (if om_mjd om = None then Inl RuntimeError
           else
             (case epoch of
                None \<Rightarrow> Inl RuntimeError
              | Some ep \<Rightarrow>
                  (if length ra \<noteq> length dec then Inl RuntimeError
                   else
                     bind_e (u_appGeoFromICRS pal ap ra dec pm_ra pm_dec parallax v_rad ep
                               (om_mjd om))
                       (\<lambda>(ra_apparent, dec_apparent).
                          bind_e (u_observedFromAppGeo pal ap ra_apparent dec_apparent
                                    includeRefraction False (1 / 2) obs_metadata)
                            (\<lambda>((ra_out, dec_out), altAz). Inr (ra_out, dec_out)))))))"

definition observedFromICRS ::
  "palpy \<Rightarrow> astropy \<Rightarrow> real list \<Rightarrow> real list \<Rightarrow> real list option \<Rightarrow> real list option
   \<Rightarrow> real list option \<Rightarrow> real list option \<Rightarrow> ObservationMetaData option \<Rightarrow> real option
   \<Rightarrow> bool \<Rightarrow> error + real list \<times> real list" where
  "observedFromICRS pal ap ra dec pm_ra pm_dec parallax v_rad obs_metadata epoch
     includeRefraction =
     (let pm_ra_in = (case pm_ra of Some a \<Rightarrow> Some (map radiansFromArcsec a) | None \<Rightarrow> None);
          pm_dec_in = (case pm_dec of Some a \<Rightarrow> Some (map radiansFromArcsec a) | None \<Rightarrow> None);
          parallax_in =
            (case parallax of Some a \<Rightarrow> Some (map radiansFromArcsec a) | None \<Rightarrow> None)
      in bind_e
           (u_observedFromICRS pal ap (map radians ra) (map radians dec) pm_ra_in pm_dec_in
              parallax_in v_rad obs_metadata epoch includeRefraction)
           (\<lambda>output. Inr (map_prod (map degrees) (map degrees) output)))"

definition u_icrsFromObserved ::
  "palpy \<Rightarrow> astropy \<Rightarrow> real list \<Rightarrow> real list \<Rightarrow> ObservationMetaData option \<Rightarrow> real option
   \<Rightarrow> bool \<Rightarrow> error + real list \<times> real list" where
  "u_icrsFromObserved pal ap ra dec obs_metadata epoch includeRefraction =
     (case obs_metadata of
        None \<Rightarrow> Inl RuntimeError
      | Some om \<Rightarrow>
          (if om_mjd om = None then Inl RuntimeError
           else
             (case epoch of
                None \<Rightarrow> Inl RuntimeError
              | Some ep \<Rightarrow>
                  (if length ra \<noteq> length dec then Inl RuntimeError
                   else
                     bind_e (u_appGeoFromObserved pal ap ra dec includeRefraction (1 / 2)
                               obs_metadata)
                       (\<lambda>(ra_app, dec_app).
                          bind_e (u_icrsFromAppGeo pal ap ra_app dec_app ep (om_mjd om))
                            (\<lambda>(ra_icrs, dec_icrs). Inr (ra_icrs, dec_icrs)))))))"

definition icrsFromObserved ::
  "palpy \<Rightarrow> astropy \<Rightarrow> real list \<Rightarrow> real list \<Rightarrow> ObservationMetaData option \<Rightarrow> real option
   \<Rightarrow> bool \<Rightarrow> error + real list \<times> real list" where
  "icrsFromObserved pal ap ra dec obs_metadata epoch includeRefraction =
     bind_e
       (u_icrsFromObserved pal ap (map radians ra) (map radians dec) obs_metadata epoch
          includeRefraction)
       (\<lambda>(ra_out, dec_out). Inr (map degrees ra_out, map degrees dec_out))"

section \<open>Concrete collaborators for evaluation\<close>

text \<open>
  The theorems below hold for every \<open>palpy\<close>, \<open>astropy\<close> and \<open>coord_utils\<close>. To
  evaluate a function at a concrete input, the parameters need concrete values:
  \<open>echo_pal\<close> is a primitive library whose routines hand back their arguments, so that
  what a function passes to a routine is read off the result, and \<open>no_iers\<close> is a
  time library with a fixed TAI-UTC of 37 seconds and no Earth-orientation table.
\<close>

definition echo_pal :: palpy where
  "echo_pal =
     \<lparr>pal_mappa = (\<lambda>epoch date. [epoch, date]),
      pal_dcc2s = (\<lambda>v. case v of x # y # r \<Rightarrow> (x, y) | _ \<Rightarrow> (0, 0)),
      pal_refco = (\<lambda>hm tdk pmb rh wl phi tlr eps. (tdk, pmb)),
      pal_refz = (\<lambda>zu refa refb. zu - refa),
      pal_refzVector = (\<lambda>zu refa refb. map (\<lambda>z. z - refa) zu),
      pal_prenut = (\<lambda>epoch date. [[1, 0, 0], [0, 1, 0], [0, 0, 1]]),
      pal_epj = (\<lambda>date. date),
      pal_pm = (\<lambda>r0 d0 pr pd px rv ep0 ep1. (r0 + pr, d0 + pd)),
      pal_pmVector = (\<lambda>r0 d0 pr pd px rv ep0 ep1. (map2 (+) r0 pr, map2 (+) d0 pd)),
      pal_mapqkVector = (\<lambda>rm dm pr pd px rv amprms. (map2 (+) rm pr, map2 (+) dm pd)),
      pal_ampqkVector = (\<lambda>ra da amprms. (ra, da)),
      pal_aoppa = (\<lambda>date dut elongm phim hm xp yp tdk pmb rh wl tlr.
                     [date, dut, elongm, phim, hm, xp, yp, tdk, pmb, rh, wl, tlr]),
      pal_aopqkVector = (\<lambda>rap dap aoprms. ([], [], rap, dap, rap)),
      pal_oapqkVector = (\<lambda>c ob1 ob2 aoprms. (ob1, ob2)),
      pal_de2hVector = (\<lambda>ha dec phi. (ha, dec))\<rparr>"

definition no_iers :: astropy where
  "no_iers =
     \<lparr>tai_mjd = (\<lambda>t. if time_scale t = scale_tai then time_val t
                       else time_val t + 37 / 86400),
      utc_mjd = (\<lambda>t. if time_scale t = scale_utc then time_val t
                       else time_val t - 37 / 86400),
      ut1_mjd = (\<lambda>t. None),
      tt_mjd = (\<lambda>t. if time_scale t = scale_tai then time_val t + 32184 / 86400000
                      else time_val t + 69184 / 86400000),
      tdb_mjd = (\<lambda>t. if time_scale t = scale_tai then time_val t + 32184 / 86400000
                       else time_val t + 69184 / 86400000),
      get_delta_ut1_utc = (\<lambda>t. None)\<rparr>"

text \<open>\<^verbatim>\<open>ModifiedJulianDate(TAI=59000.0)\<close>, as \<open>ModifiedJulianDate_init\<close> builds it.\<close>

definition instant0 :: ModifiedJulianDate where
  "instant0 =
     \<lparr>m_time = \<lparr>time_val = 59000, time_scale = scale_tai\<rparr>,
      m_tai = Some 59000, m_utc = None,
      m_tt = None, m_tdb = None, m_ut1 = None, m_dut1 = None\<rparr>"

text \<open>A site whose temperature is 11.5 degrees Celsius, that is 284.65 Kelvin.\<close>

definition site0 :: Site where
  "site0 =
     \<lparr>longitude_rad = - 12348 / 10000, latitude_rad = - 5278 / 10000, height = 2650,
      temperature = 115 / 10, temperature_kelvin = 28465 / 100,
      pressure = 750, humidity = 4 / 10, lapseRate = 65 / 10000\<rparr>"

definition obs0 :: ObservationMetaData where
  "obs0 = \<lparr>om_site = Some site0, om_mjd = Some instant0\<rparr>"

section \<open>Shared facts\<close>

lemma bind_e_Inl: "bind_e (Inl e) f = Inl e"
  by (simp add: bind_e_def)

lemma bind_e_Inr: "bind_e (Inr x) f = f x"
  by (simp add: bind_e_def)

lemma bind_e_return: "bind_e r Inr = r"
  by (cases r) (auto simp: bind_e_def)

lemma bind_e_pair_id:
  fixes r :: "error + 'a \<times> 'b"
  shows "bind_e r (\<lambda>(a, b). Inr (a, b)) = r"
  by (cases r) (auto simp: bind_e_def)

lemma bind_e_drop_altAz:
  fixes r :: "error + ('a \<times> 'b) \<times> 'c"
  shows "bind_e r (\<lambda>((a, b), z). Inr (a, b)) = map_sum id fst r"
  by (cases r) (auto simp: bind_e_def)

lemma map2_div_cos:
  "length xs = n \<Longrightarrow> length ys = n \<Longrightarrow>
     map2 (/) xs (map cos ys) = map (\<lambda>i. xs ! i / cos (ys ! i)) [0..<n]"
  by (rule nth_equalityI) simp_all

lemma div_arrays_same_length:
  "length xs = n \<Longrightarrow> length ys = n \<Longrightarrow>
     div_arrays xs (map cos ys) = Inr (map (\<lambda>i. xs ! i / cos (ys ! i)) [0..<n])"
  by (simp add: div_arrays_def map2_div_cos)

lemma nth_map_upt_cong:
  "length xs = n \<Longrightarrow> length ys = n \<Longrightarrow>
     map (\<lambda>i. map f xs ! i / cos (map g ys ! i)) [0..<n] =
     map (\<lambda>i. f (xs ! i) / cos (g (ys ! i))) [0..<n]"
  by (rule map_cong) simp_all

lemma bind_e_map_sum: "bind_e r (\<lambda>x. Inr (f x)) = map_sum id f r"
  by (cases r) (simp_all add: bind_e_def)

lemma bind_e_map_sum_pair:
  "bind_e r (\<lambda>(a, b). Inr (f a, g b)) = map_sum id (map_prod f g) r"
  by (cases r) (auto simp: bind_e_def)

lemma div_arrays_error: "div_arrays xs ys = Inl e \<Longrightarrow> e = ValueError"
  by (simp add: div_arrays_def split: if_splits)

lemma UTC_no_iers_instant0: "fst (UTC no_iers instant0) = 59000 - 37 / 86400"
  by (simp add: UTC_def no_iers_def instant0_def Let_def)

text \<open>A value read once is read again from the cache, with no further warning.\<close>

lemma UT1_cached:
  "fst (UT1 ap (fst (snd (UT1 ap m)))) = fst (UT1 ap m)
   \<and> snd (snd (UT1 ap (fst (snd (UT1 ap m))))) = []"
  by (cases "m_ut1 m"; cases "ut1_mjd ap (m_time m)"; cases "m_utc m")
     (simp_all add: UT1_def UTC_def Let_def split: prod.splits)

lemma dut1_cached:
  "fst (dut1 ap (fst (snd (dut1 ap m)))) = fst (dut1 ap m)
   \<and> snd (snd (dut1 ap (fst (snd (dut1 ap m))))) = []"
  by (cases "m_dut1 m"; cases "get_delta_ut1_utc ap (m_time m)"; cases "m_utc m")
     (auto simp add: dut1_def UTC_def Let_def split: prod.splits delta.splits)

section \<open>Construction of a ModifiedJulianDate\<close>

text \<open>
  C1, as the specification states it, makes the construction fail when both TAI and UTC
  are given. The constructor tests only for "neither": given both, it takes the TAI
  branch and never looks at the UTC.
\<close>

theorem init_both_given_succeeds:
  "ModifiedJulianDate_init (Some 59000) (Some 58999) =
     Inr \<lparr>m_time = \<lparr>time_val = 59000, time_scale = scale_tai\<rparr>,
          m_tai = Some 59000, m_utc = None,
          m_tt = None, m_tdb = None, m_ut1 = None, m_dut1 = None\<rparr>"
  by (simp add: ModifiedJulianDate_init_def)

text \<open>
  C1 (amended): the construction fails, with the configuration error, exactly when
  neither TAI nor UTC is given. Given a TAI (with or without a UTC) the instant is that
  TAI on the TAI scale; given only a UTC it is that UTC on the UTC scale. The derived
  scales start empty.
\<close>

theorem init_fails_iff_neither:
  "(ModifiedJulianDate_init t u = Inl RuntimeError) = (t = None \<and> u = None)
   \<and> isl (ModifiedJulianDate_init t u) = (t = None \<and> u = None)
   \<and> ModifiedJulianDate_init (Some x) u =
        Inr \<lparr>m_time = \<lparr>time_val = x, time_scale = scale_tai\<rparr>,
             m_tai = Some x, m_utc = None,
             m_tt = None, m_tdb = None, m_ut1 = None, m_dut1 = None\<rparr>
   \<and> ModifiedJulianDate_init None (Some y) =
        Inr \<lparr>m_time = \<lparr>time_val = y, time_scale = scale_utc\<rparr>,
             m_tai = None, m_utc = Some y,
             m_tt = None, m_tdb = None, m_ut1 = None, m_dut1 = None\<rparr>"
  by (cases t; cases u) (simp_all add: ModifiedJulianDate_init_def)

section \<open>UT1 and UT1-UTC outside the Earth-orientation table\<close>

text \<open>
  C9: when astropy raises on UT1 and on UT1-UTC for the instant (it lies outside the
  IERS table) and neither value has been read before, reading \<open>UT1\<close> returns the UTC and
  reading \<open>dut1\<close> returns 0, each with one warning that prints the UTC, in whichever
  order the two are read. Both readers are total: they have no error to return.
\<close>

theorem outside_iers_fallback:
  assumes "ut1_mjd ap (m_time m) = None" and "get_delta_ut1_utc ap (m_time m) = None"
    and "m_ut1 m = None" and "m_dut1 m = None"
  shows "fst (UT1 ap m) = fst (UTC ap m)
     \<and> snd (snd (UT1 ap m)) = [OutsideIERS (fst (UTC ap m))]
     \<and> fst (dut1 ap m) = 0
     \<and> snd (snd (dut1 ap m)) = [OutsideIERS (fst (UTC ap m))]
     \<and> fst (dut1 ap (fst (snd (UT1 ap m)))) = 0
     \<and> snd (snd (dut1 ap (fst (snd (UT1 ap m))))) = [OutsideIERS (fst (UTC ap m))]
     \<and> fst (UT1 ap (fst (snd (dut1 ap m)))) = fst (UTC ap m)
     \<and> snd (snd (UT1 ap (fst (snd (dut1 ap m))))) = [OutsideIERS (fst (UTC ap m))]"
  using assms
  by (cases "m_utc m") (simp_all add: UT1_def dut1_def UTC_def Let_def split: prod.splits)

theorem outside_iers_fallback_witness:
  "ut1_mjd no_iers (m_time instant0) = None
   \<and> get_delta_ut1_utc no_iers (m_time instant0) = None
   \<and> m_ut1 instant0 = None \<and> m_dut1 instant0 = None
   \<and> fst (UT1 no_iers instant0) = 59000 - 37 / 86400
   \<and> snd (snd (UT1 no_iers instant0)) = [OutsideIERS (59000 - 37 / 86400)]
   \<and> fst (dut1 no_iers instant0) = 0
   \<and> snd (snd (dut1 no_iers instant0)) = [OutsideIERS (59000 - 37 / 86400)]"
proof -
  have h1: "ut1_mjd no_iers (m_time instant0) = None" by (simp add: no_iers_def)
  have h2: "get_delta_ut1_utc no_iers (m_time instant0) = None" by (simp add: no_iers_def)
  have h3: "m_ut1 instant0 = None" by (simp add: instant0_def)
  have h4: "m_dut1 instant0 = None" by (simp add: instant0_def)
  from outside_iers_fallback [OF h1 h2 h3 h4] UTC_no_iers_instant0 h1 h2 h3 h4
  show ?thesis by simp
qed

section \<open>The observatory parameters without refraction\<close>

text \<open>
  C2 at a concrete observation: with \<^verbatim>\<open>includeRefraction=True\<close> the eighth argument
  of \<^verbatim>\<open>palpy.aoppa\<close> is \<^verbatim>\<open>site.temperature_kelvin\<close> (284.65), with
  \<^verbatim>\<open>includeRefraction=False\<close> it is \<^verbatim>\<open>site.temperature\<close> (11.5): beside the zeroed
  pressure and humidity, the temperature differs between the two paths.
\<close>

theorem no_refraction_passes_celsius:
  "u_calculateObservatoryParameters echo_pal no_iers obs0 (1 / 2) True =
     Inr [59000 - 37 / 86400, 0, - 12348 / 10000, - 5278 / 10000, 2650, 0, 0,
          28465 / 100, 750, 4 / 10, 1 / 2, 65 / 10000]
   \<and> u_calculateObservatoryParameters echo_pal no_iers obs0 (1 / 2) False =
     Inr [59000 - 37 / 86400, 0, - 12348 / 10000, - 5278 / 10000, 2650, 0, 0,
          115 / 10, 0, 0, 1 / 2, 65 / 10000]"
  by (simp add: u_calculateObservatoryParameters_def echo_pal_def no_iers_def obs0_def
        site0_def instant0_def UTC_def dut1_def Let_def)

section \<open>The composed transforms\<close>

text \<open>
  C4: for every batch, every observation context that has an instant, and every epoch,
  \<^verbatim>\<open>_observedFromICRS\<close> is \<^verbatim>\<open>_appGeoFromICRS\<close> (same motion terms and epoch, the
  instant of the context) followed by \<^verbatim>\<open>_observedFromAppGeo\<close> (same context and
  refraction flag) on the rows the first stage returns, and \<^verbatim>\<open>_icrsFromObserved\<close> is
  \<^verbatim>\<open>_appGeoFromObserved\<close> followed by \<^verbatim>\<open>_icrsFromAppGeo\<close>. The equalities hold in
  radians, errors included; nothing converts the rows between the stages.
\<close>

theorem composed_transforms:
  assumes "om_mjd om = Some m"
  shows "u_observedFromICRS pal ap ra dec pm_ra pm_dec parallax v_rad (Some om) (Some ep) incl =
      bind_e (u_appGeoFromICRS pal ap ra dec pm_ra pm_dec parallax v_rad ep (Some m))
        (\<lambda>(ra_app, dec_app).
           map_sum id fst
             (u_observedFromAppGeo pal ap ra_app dec_app incl False (1 / 2) (Some om)))
    \<and> u_icrsFromObserved pal ap ra dec (Some om) (Some ep) incl =
      bind_e (u_appGeoFromObserved pal ap ra dec incl (1 / 2) (Some om))
        (\<lambda>(ra_app, dec_app). u_icrsFromAppGeo pal ap ra_app dec_app ep (Some m))"
proof (cases "length ra = length dec")
  case False
  then show ?thesis using assms
    by (simp add: u_observedFromICRS_def u_appGeoFromICRS_def u_icrsFromObserved_def
          u_appGeoFromObserved_def bind_e_Inl)
next
  case True
  then show ?thesis using assms
    by (simp add: u_observedFromICRS_def u_icrsFromObserved_def bind_e_drop_altAz
          bind_e_pair_id bind_e_return)
qed

theorem composed_transforms_witness:
  "om_mjd obs0 = Some instant0
   \<and> u_observedFromICRS echo_pal no_iers [0, 1] [0, 0] (Some [1 / 10, 2 / 10]) None None None
       (Some obs0) (Some 2000) True = Inr ([1 / 10, 12 / 10], [0, 0])
   \<and> u_icrsFromObserved echo_pal no_iers [0, 1] [0, 0] (Some obs0) (Some 2000) True =
       Inr ([0, 1], [0, 0])"
proof -
  have h: "om_mjd obs0 = Some instant0" by (simp add: obs0_def)
  have a: "u_appGeoFromICRS echo_pal no_iers [0, 1] [0, 0] (Some [1 / 10, 2 / 10]) None None
             None 2000 (Some instant0) = Inr ([1 / 10, 12 / 10], [0, 0])"
    by (simp add: u_appGeoFromICRS_def div_arrays_def echo_pal_def bind_e_Inr Let_def)
  have b: "u_observedFromAppGeo echo_pal no_iers [1 / 10, 12 / 10] [0, 0] True False (1 / 2)
             (Some obs0) = Inr (([1 / 10, 12 / 10], [0, 0]), None)"
    by (simp add: u_observedFromAppGeo_def u_calculateObservatoryParameters_def obs0_def
          echo_pal_def bind_e_Inr Let_def)
  have c: "u_appGeoFromObserved echo_pal no_iers [0, 1] [0, 0] True (1 / 2) (Some obs0) =
             Inr ([0, 1], [0, 0])"
    by (simp add: u_appGeoFromObserved_def u_calculateObservatoryParameters_def obs0_def
          echo_pal_def bind_e_Inr Let_def)
  have d: "u_icrsFromAppGeo echo_pal no_iers [0, 1] [0, 0] 2000 (Some instant0) =
             Inr ([0, 1], [0, 0])"
    by (simp add: u_icrsFromAppGeo_def echo_pal_def Let_def)
  from composed_transforms [OF h, of echo_pal no_iers "[0, 1]" "[0, 0]"
      "Some [1 / 10, 2 / 10]" None None None 2000 True] h a b c d
  show ?thesis by (simp add: bind_e_Inr)
qed

section \<open>A missing instant in icrsFromAppGeo\<close>

text \<open>
  The stages that test for their context raise the configuration error when it is
  missing.
\<close>

lemma stages_require_context:
  "refractionCoefficients pal wavelength None = Inl RuntimeError"
  "u_observedFromAppGeo pal ap ra dec incl altAzHr wavelength None = Inl RuntimeError"
  "u_observedFromAppGeo pal ap ra dec incl altAzHr wavelength (Some (om\<lparr>om_site := None\<rparr>)) =
     Inl RuntimeError"
  "u_observedFromAppGeo pal ap ra dec incl altAzHr wavelength (Some (om\<lparr>om_mjd := None\<rparr>)) =
     Inl RuntimeError"
  "u_appGeoFromObserved pal ap ra dec incl wavelength None = Inl RuntimeError"
  "u_appGeoFromObserved pal ap ra dec incl wavelength (Some (om\<lparr>om_site := None\<rparr>)) =
     Inl RuntimeError"
  "u_appGeoFromObserved pal ap ra dec incl wavelength (Some (om\<lparr>om_mjd := None\<rparr>)) =
     Inl RuntimeError"
  "u_observedFromICRS pal ap ra dec pm_ra pm_dec parallax v_rad None o_epoch incl =
     Inl RuntimeError"
  "u_observedFromICRS pal ap ra dec pm_ra pm_dec parallax v_rad (Some (om\<lparr>om_mjd := None\<rparr>))
     o_epoch incl = Inl RuntimeError"
  "u_observedFromICRS pal ap ra dec pm_ra pm_dec parallax v_rad (Some om) None incl =
     Inl RuntimeError"
  "u_icrsFromObserved pal ap ra dec None o_epoch incl = Inl RuntimeError"
  "u_icrsFromObserved pal ap ra dec (Some (om\<lparr>om_mjd := None\<rparr>)) o_epoch incl =
     Inl RuntimeError"
  "u_icrsFromObserved pal ap ra dec (Some om) None incl = Inl RuntimeError"
  "u_appGeoFromICRS pal ap ra dec pm_ra pm_dec parallax v_rad epoch None = Inl RuntimeError"
  "u_applyProperMotion pal ap v_ra v_dec v_pm_ra v_pm_dec v_parallax v_v_rad epoch None =
     Inl RuntimeError"
  "u_applyPrecession cu pal ap (Float x) v_dec epoch None = Inl RuntimeError"
  by (simp_all add: refractionCoefficients_def u_observedFromAppGeo_def u_appGeoFromObserved_def
        u_observedFromICRS_def u_icrsFromObserved_def u_appGeoFromICRS_def
        u_applyProperMotion_def u_applyPrecession_def bind_e_Inr
        split: option.splits)

text \<open>
  C5 at \<^verbatim>\<open>mjd=None\<close>: \<^verbatim>\<open>_icrsFromAppGeo\<close> and its wrapper have no test of the instant
  and read \<^verbatim>\<open>mjd.TDB\<close> at once, so that the error is the \<^verbatim>\<open>AttributeError\<close> of
  Python and not the configuration error every other stage raises.
\<close>

theorem icrsFromAppGeo_without_mjd:
  "u_icrsFromAppGeo pal ap ra dec epoch None = Inl AttributeError
   \<and> icrsFromAppGeo pal ap ra dec epoch None = Inl AttributeError"
  by (simp add: icrsFromAppGeo_def u_icrsFromAppGeo_def bind_e_Inl)

section \<open>Lengths of the arrays of a batch\<close>

text \<open>
  Five of the six array stages raise the configuration error on an RA and a Dec of
  unequal length (with or without their context), \<^verbatim>\<open>_appGeoFromICRS\<close> fills the
  omitted motion terms with zeros of the length of the RA, and \<^verbatim>\<open>_applyProperMotion\<close>
  fails on arrays of unequal length, with the configuration error or with the
  \<^verbatim>\<open>ValueError\<close> of the division that comes before its test.
\<close>

lemma stages_reject_unequal_ra_dec:
  assumes "length ra \<noteq> length dec"
  shows "u_appGeoFromICRS pal ap ra dec pm_ra pm_dec parallax v_rad epoch mjd = Inl RuntimeError"
    and "u_observedFromAppGeo pal ap ra dec incl altAzHr wavelength obs = Inl RuntimeError"
    and "u_appGeoFromObserved pal ap ra dec incl wavelength obs = Inl RuntimeError"
    and "u_observedFromICRS pal ap ra dec pm_ra pm_dec parallax v_rad obs o_epoch incl =
           Inl RuntimeError"
    and "u_icrsFromObserved pal ap ra dec obs o_epoch incl = Inl RuntimeError"
  using assms
  by (simp_all add: u_appGeoFromICRS_def u_observedFromAppGeo_def u_appGeoFromObserved_def
        u_observedFromICRS_def u_icrsFromObserved_def split: option.splits)

lemma appGeoFromICRS_five_four:
  "appGeoFromICRS pal ap [10, 20, 30, 40, 50] [1, 2, 3, 4] pm_ra pm_dec parallax v_rad epoch mjd
     = Inl RuntimeError"
  by (simp add: appGeoFromICRS_def stages_reject_unequal_ra_dec(1) bind_e_Inl)

lemma appGeoFromICRS_defaults:
  "u_appGeoFromICRS pal ap ra dec None None None None epoch mjd =
   u_appGeoFromICRS pal ap ra dec (Some (replicate (length ra) 0))
     (Some (replicate (length ra) 0)) (Some (replicate (length ra) 0))
     (Some (replicate (length ra) 0)) epoch mjd"
  by (cases mjd) (simp_all add: u_appGeoFromICRS_def)

lemma applyProperMotion_rejects_unequal:
  assumes "\<not> (length dec = length ra \<and> length pm_ra = length ra \<and> length pm_dec = length ra
             \<and> length parallax = length ra \<and> length v_rad = length ra)"
  shows "u_applyProperMotion pal ap (NdArray ra) (NdArray dec) (NdArray pm_ra) (NdArray pm_dec)
           (NdArray parallax) (NdArray v_rad) epoch mjd \<in> {Inl RuntimeError, Inl ValueError}"
proof (cases mjd)
  case None
  then show ?thesis by (simp add: u_applyProperMotion_def)
next
  case (Some m)
  show ?thesis
  proof (cases "div_arrays pm_ra (map cos dec)")
    case (Inl e)
    then have "e = ValueError" by (rule div_arrays_error)
    with Inl Some show ?thesis
      by (simp add: u_applyProperMotion_def np_cos_def bind_e_Inl Let_def)
  next
    case (Inr pr)
    with Some assms show ?thesis
      by (auto simp add: u_applyProperMotion_def np_cos_def bind_e_Inr Let_def)
  qed
qed

text \<open>
  C3 at a batch of unequal lengths: \<^verbatim>\<open>_appGeoFromICRS\<close> tests the RA against the
  Dec only. A proper motion in RA of length one against five stars is broadcast by the
  division \<^verbatim>\<open>pm_ra/numpy.cos(dec)\<close>, every array handed to \<^verbatim>\<open>palpy.mapqkVector\<close>
  has length five, and the call returns what the routine returns, for every primitive
  library; with \<open>echo_pal\<close> the broadcast rate shows in the result.
\<close>

theorem unequal_lengths_not_rejected:
  "u_appGeoFromICRS pal ap [0, 0, 0, 0, 0] [0, 0, 0, 0, 0] (Some [1]) None None None 2000
     (Some instant0) =
     Inr (pal_mapqkVector pal [0, 0, 0, 0, 0] [0, 0, 0, 0, 0] [1, 1, 1, 1, 1] [0, 0, 0, 0, 0]
            [0, 0, 0, 0, 0] [0, 0, 0, 0, 0] (pal_mappa pal 2000 (fst (TDB ap instant0))))
   \<and> u_appGeoFromICRS echo_pal no_iers [0, 0, 0, 0, 0] [0, 0, 0, 0, 0] (Some [1]) None None None
     2000 (Some instant0) = Inr ([1, 1, 1, 1, 1], [0, 0, 0, 0, 0])"
proof -
  have d: "div_arrays [1] [1, 1, 1, 1, 1] = Inr [1, 1, 1, 1, 1]"
    by (simp add: div_arrays_def)
  have z: "replicate 5 (0::real) = [0, 0, 0, 0, 0]"
    by (simp add: numeral_eq_Suc)
  have a: "u_appGeoFromICRS pal ap [0, 0, 0, 0, 0] [0, 0, 0, 0, 0] (Some [1]) None None None
             2000 (Some instant0) =
           Inr (pal_mapqkVector pal [0, 0, 0, 0, 0] [0, 0, 0, 0, 0] [1, 1, 1, 1, 1]
                  [0, 0, 0, 0, 0] [0, 0, 0, 0, 0] [0, 0, 0, 0, 0]
                  (pal_mappa pal 2000 (fst (TDB ap instant0))))" for pal ap
    by (simp add: u_appGeoFromICRS_def d z arcsecFromRadians_def degrees_def bind_e_Inr Let_def)
  have b: "pal_mapqkVector echo_pal [0, 0, 0, 0, 0] [0, 0, 0, 0, 0] [1, 1, 1, 1, 1]
             [0, 0, 0, 0, 0] [0, 0, 0, 0, 0] [0, 0, 0, 0, 0] prms =
           ([1, 1, 1, 1, 1], [0, 0, 0, 0, 0])" for prms
    by (simp add: echo_pal_def)
  from a [of pal ap] a [of echo_pal no_iers] b show ?thesis by simp
qed

section \<open>The proper motion in RA and the cosine of the declination\<close>

lemma appGeo_core_divides_once:
  assumes "length dec = length ra" and "length pm_ra = length ra"
  shows "u_appGeoFromICRS pal ap ra dec (Some pm_ra) pm_dec parallax v_rad epoch (Some m) =
      Inr (pal_mapqkVector pal ra dec
             (map (\<lambda>i. pm_ra ! i / cos (dec ! i)) [0..<length ra])
             (case pm_dec of None \<Rightarrow> replicate (length ra) 0 | Some a \<Rightarrow> a)
             (map arcsecFromRadians
                (case parallax of None \<Rightarrow> replicate (length ra) 0 | Some a \<Rightarrow> a))
             (case v_rad of None \<Rightarrow> replicate (length ra) 0 | Some a \<Rightarrow> a)
             (pal_mappa pal epoch (fst (TDB ap m))))"
  using assms
  by (simp add: u_appGeoFromICRS_def div_arrays_same_length [of pm_ra "length ra" dec]
        bind_e_Inr Let_def)

lemma appGeo_core_default_pm_ra:
  assumes "length dec = length ra"
  shows "u_appGeoFromICRS pal ap ra dec None pm_dec parallax v_rad epoch (Some m) =
      Inr (pal_mapqkVector pal ra dec
             (map (\<lambda>i. 0 / cos (dec ! i)) [0..<length ra])
             (case pm_dec of None \<Rightarrow> replicate (length ra) 0 | Some a \<Rightarrow> a)
             (map arcsecFromRadians
                (case parallax of None \<Rightarrow> replicate (length ra) 0 | Some a \<Rightarrow> a))
             (case v_rad of None \<Rightarrow> replicate (length ra) 0 | Some a \<Rightarrow> a)
             (pal_mappa pal epoch (fst (TDB ap m))))"
proof -
  have "div_arrays (replicate (length ra) 0) (map cos dec) =
          Inr (map (\<lambda>i. replicate (length ra) 0 ! i / cos (dec ! i)) [0..<length ra])"
    using assms by (intro div_arrays_same_length) simp_all
  also have "map (\<lambda>i. replicate (length ra) 0 ! i / cos (dec ! i)) [0..<length ra] =
          map (\<lambda>i. 0 / cos (dec ! i)) [0..<length ra]"
    by (rule map_cong) simp_all
  finally show ?thesis using assms
    by (simp add: u_appGeoFromICRS_def bind_e_Inr Let_def)
qed

lemma pm_core_array_divides_once:
  assumes "length dec = length ra" and "length pm_ra = length ra" and "length pm_dec = length ra"
    and "length parallax = length ra" and "length v_rad = length ra"
  shows "u_applyProperMotion pal ap (NdArray ra) (NdArray dec) (NdArray pm_ra) (NdArray pm_dec)
           (NdArray parallax) (NdArray v_rad) epoch (Some m) =
      Inr (map_prod NdArray NdArray
             (pal_pmVector pal ra dec
                (map (\<lambda>i. pm_ra ! i / cos (dec ! i)) [0..<length ra])
                pm_dec (map arcsecFromRadians parallax) v_rad epoch
                (pal_epj pal (fst (TT ap m)))))"
  using assms
  by (simp add: u_applyProperMotion_def np_cos_def
        div_arrays_same_length [of pm_ra "length ra" dec] bind_e_Inr Let_def
        split: prod.splits)

lemma pm_core_float_divides_once:
  "u_applyProperMotion pal ap (Float ra) (Float dec) (Float pm_ra) (Float pm_dec)
           (Float parallax) (Float v_rad) epoch (Some m) =
      Inr (map_prod Float Float
             (pal_pm pal ra dec (pm_ra / cos dec) pm_dec (arcsecFromRadians parallax) v_rad epoch
                (pal_epj pal (fst (TT ap m)))))"
  by (simp add: u_applyProperMotion_def np_cos_def bind_e_Inr Let_def split: prod.splits)

lemma appGeo_wrapper_divides_once:
  assumes "length dec = length ra" and "length pm_ra = length ra"
  shows "appGeoFromICRS pal ap ra dec (Some pm_ra) pm_dec parallax v_rad epoch (Some m) =
      Inr (map_prod (map degrees) (map degrees)
            (pal_mapqkVector pal (map radians ra) (map radians dec)
             (map (\<lambda>i. radiansFromArcsec (pm_ra ! i) / cos (radians (dec ! i))) [0..<length ra])
             (case pm_dec of None \<Rightarrow> replicate (length ra) 0 | Some a \<Rightarrow> map radiansFromArcsec a)
             (map arcsecFromRadians
                (case parallax of None \<Rightarrow> replicate (length ra) 0
                 | Some a \<Rightarrow> map radiansFromArcsec a))
             (case v_rad of None \<Rightarrow> replicate (length ra) 0 | Some a \<Rightarrow> a)
             (pal_mappa pal epoch (fst (TDB ap m)))))"
proof -
  have "u_appGeoFromICRS pal ap (map radians ra) (map radians dec)
          (Some (map radiansFromArcsec pm_ra))
          (case pm_dec of Some a \<Rightarrow> Some (map radiansFromArcsec a) | None \<Rightarrow> None)
          (case parallax of Some a \<Rightarrow> Some (map radiansFromArcsec a) | None \<Rightarrow> None)
          v_rad epoch (Some m) =
        Inr (pal_mapqkVector pal (map radians ra) (map radians dec)
             (map (\<lambda>i. radiansFromArcsec (pm_ra ! i) / cos (radians (dec ! i))) [0..<length ra])
             (case pm_dec of None \<Rightarrow> replicate (length ra) 0 | Some a \<Rightarrow> map radiansFromArcsec a)
             (map arcsecFromRadians
                (case parallax of None \<Rightarrow> replicate (length ra) 0
                 | Some a \<Rightarrow> map radiansFromArcsec a))
             (case v_rad of None \<Rightarrow> replicate (length ra) 0 | Some a \<Rightarrow> a)
             (pal_mappa pal epoch (fst (TDB ap m))))"
    using assms
      appGeo_core_divides_once [of "map radians dec" "map radians ra"
        "map radiansFromArcsec pm_ra" pal ap
        "case pm_dec of Some a \<Rightarrow> Some (map radiansFromArcsec a) | None \<Rightarrow> None"
        "case parallax of Some a \<Rightarrow> Some (map radiansFromArcsec a) | None \<Rightarrow> None"
        v_rad epoch m]
      nth_map_upt_cong [of pm_ra "length ra" dec radiansFromArcsec radians]
    by (cases pm_dec; cases parallax; cases v_rad) simp_all
  then show ?thesis
    by (simp add: appGeoFromICRS_def bind_e_Inr)
qed

lemma pm_wrapper_divides_once:
  assumes "length dec = length ra" and "length pm_ra = length ra" and "length pm_dec = length ra"
    and "length parallax = length ra" and "length v_rad = length ra"
  shows "applyProperMotion pal ap (NdArray ra) (NdArray dec) (NdArray pm_ra) (NdArray pm_dec)
           (NdArray parallax) (NdArray v_rad) epoch (Some m) =
      Inr (map_prod np_degrees np_degrees (map_prod NdArray NdArray
             (pal_pmVector pal (map radians ra) (map radians dec)
                (map (\<lambda>i. radiansFromArcsec (pm_ra ! i) / cos (radians (dec ! i))) [0..<length ra])
                (map radiansFromArcsec pm_dec)
                (map arcsecFromRadians (map radiansFromArcsec parallax)) v_rad epoch
                (pal_epj pal (fst (TT ap m))))))"
proof -
  have "u_applyProperMotion pal ap (NdArray (map radians ra)) (NdArray (map radians dec))
          (NdArray (map radiansFromArcsec pm_ra)) (NdArray (map radiansFromArcsec pm_dec))
          (NdArray (map radiansFromArcsec parallax)) (NdArray v_rad) epoch (Some m) =
      Inr (map_prod NdArray NdArray
             (pal_pmVector pal (map radians ra) (map radians dec)
                (map (\<lambda>i. radiansFromArcsec (pm_ra ! i) / cos (radians (dec ! i))) [0..<length ra])
                (map radiansFromArcsec pm_dec)
                (map arcsecFromRadians (map radiansFromArcsec parallax)) v_rad epoch
                (pal_epj pal (fst (TT ap m)))))"
    using assms
      pm_core_array_divides_once [of "map radians dec" "map radians ra"
        "map radiansFromArcsec pm_ra" "map radiansFromArcsec pm_dec"
        "map radiansFromArcsec parallax" v_rad pal ap epoch m]
      nth_map_upt_cong [of pm_ra "length ra" dec radiansFromArcsec radians]
    by simp
  then show ?thesis
    by (simp add: applyProperMotion_def np_radians_def bind_e_Inr)
qed

lemma pm_wrapper_float_divides_once:
  "applyProperMotion pal ap (Float ra) (Float dec) (Float pm_ra) (Float pm_dec)
           (Float parallax) (Float v_rad) epoch (Some m) =
      Inr (map_prod np_degrees np_degrees (map_prod Float Float
             (pal_pm pal (radians ra) (radians dec)
                (radiansFromArcsec pm_ra / cos (radians dec)) (radiansFromArcsec pm_dec)
                (arcsecFromRadians (radiansFromArcsec parallax)) v_rad epoch
                (pal_epj pal (fst (TT ap m))))))"
  by (simp add: applyProperMotion_def np_radians_def pm_core_float_divides_once bind_e_Inr)

text \<open>
  C6: on a well-formed batch (all arrays of the length of the RA), the proper motion in
  RA that reaches the primitive is, star by star, the input divided by the cosine of the
  declination, once: in \<^verbatim>\<open>_appGeoFromICRS\<close> (also for the zeros that stand for an
  omitted proper motion) and through its wrapper, in \<^verbatim>\<open>_applyProperMotion\<close> on arrays
  and on floats and through its wrapper. Through a wrapper the quotient is of the
  converted values: radians per year over the cosine of the declination in radians.
\<close>

theorem pm_ra_divided_by_cos_dec_once:
  assumes "length dec = length ra" and "length pm_ra = length ra" and "length pm_dec = length ra"
    and "length parallax = length ra" and "length v_rad = length ra"
  shows "u_appGeoFromICRS pal ap ra dec (Some pm_ra) o_pm_dec o_parallax o_v_rad epoch (Some m) =
      Inr (pal_mapqkVector pal ra dec
             (map (\<lambda>i. pm_ra ! i / cos (dec ! i)) [0..<length ra])
             (case o_pm_dec of None \<Rightarrow> replicate (length ra) 0 | Some a \<Rightarrow> a)
             (map arcsecFromRadians
                (case o_parallax of None \<Rightarrow> replicate (length ra) 0 | Some a \<Rightarrow> a))
             (case o_v_rad of None \<Rightarrow> replicate (length ra) 0 | Some a \<Rightarrow> a)
             (pal_mappa pal epoch (fst (TDB ap m))))
    \<and> u_appGeoFromICRS pal ap ra dec None o_pm_dec o_parallax o_v_rad epoch (Some m) =
      Inr (pal_mapqkVector pal ra dec
             (map (\<lambda>i. 0 / cos (dec ! i)) [0..<length ra])
             (case o_pm_dec of None \<Rightarrow> replicate (length ra) 0 | Some a \<Rightarrow> a)
             (map arcsecFromRadians
                (case o_parallax of None \<Rightarrow> replicate (length ra) 0 | Some a \<Rightarrow> a))
             (case o_v_rad of None \<Rightarrow> replicate (length ra) 0 | Some a \<Rightarrow> a)
             (pal_mappa pal epoch (fst (TDB ap m))))
    \<and> appGeoFromICRS pal ap ra dec (Some pm_ra) o_pm_dec o_parallax o_v_rad epoch (Some m) =
      Inr (map_prod (map degrees) (map degrees)
            (pal_mapqkVector pal (map radians ra) (map radians dec)
             (map (\<lambda>i. radiansFromArcsec (pm_ra ! i) / cos (radians (dec ! i))) [0..<length ra])
             (case o_pm_dec of None \<Rightarrow> replicate (length ra) 0
              | Some a \<Rightarrow> map radiansFromArcsec a)
             (map arcsecFromRadians
                (case o_parallax of None \<Rightarrow> replicate (length ra) 0
                 | Some a \<Rightarrow> map radiansFromArcsec a))
             (case o_v_rad of None \<Rightarrow> replicate (length ra) 0 | Some a \<Rightarrow> a)
             (pal_mappa pal epoch (fst (TDB ap m)))))
    \<and> u_applyProperMotion pal ap (NdArray ra) (NdArray dec) (NdArray pm_ra) (NdArray pm_dec)
           (NdArray parallax) (NdArray v_rad) epoch (Some m) =
      Inr (map_prod NdArray NdArray
             (pal_pmVector pal ra dec
                (map (\<lambda>i. pm_ra ! i / cos (dec ! i)) [0..<length ra])
                pm_dec (map arcsecFromRadians parallax) v_rad epoch
                (pal_epj pal (fst (TT ap m)))))
    \<and> applyProperMotion pal ap (NdArray ra) (NdArray dec) (NdArray pm_ra) (NdArray pm_dec)
           (NdArray parallax) (NdArray v_rad) epoch (Some m) =
      Inr (map_prod np_degrees np_degrees (map_prod NdArray NdArray
             (pal_pmVector pal (map radians ra) (map radians dec)
                (map (\<lambda>i. radiansFromArcsec (pm_ra ! i) / cos (radians (dec ! i)))
                   [0..<length ra])
                (map radiansFromArcsec pm_dec)
                (map arcsecFromRadians (map radiansFromArcsec parallax)) v_rad epoch
                (pal_epj pal (fst (TT ap m))))))
    \<and> u_applyProperMotion pal ap (Float s_ra) (Float s_dec) (Float s_pm_ra) (Float s_pm_dec)
           (Float s_parallax) (Float s_v_rad) epoch (Some m) =
      Inr (map_prod Float Float
             (pal_pm pal s_ra s_dec (s_pm_ra / cos s_dec) s_pm_dec
                (arcsecFromRadians s_parallax) s_v_rad epoch (pal_epj pal (fst (TT ap m)))))
    \<and> applyProperMotion pal ap (Float s_ra) (Float s_dec) (Float s_pm_ra) (Float s_pm_dec)
           (Float s_parallax) (Float s_v_rad) epoch (Some m) =
      Inr (map_prod np_degrees np_degrees (map_prod Float Float
             (pal_pm pal (radians s_ra) (radians s_dec)
                (radiansFromArcsec s_pm_ra / cos (radians s_dec)) (radiansFromArcsec s_pm_dec)
                (arcsecFromRadians (radiansFromArcsec s_parallax)) s_v_rad epoch
                (pal_epj pal (fst (TT ap m))))))"
proof (intro conjI)
  show "u_appGeoFromICRS pal ap ra dec (Some pm_ra) o_pm_dec o_parallax o_v_rad epoch (Some m) =
      Inr (pal_mapqkVector pal ra dec
             (map (\<lambda>i. pm_ra ! i / cos (dec ! i)) [0..<length ra])
             (case o_pm_dec of None \<Rightarrow> replicate (length ra) 0 | Some a \<Rightarrow> a)
             (map arcsecFromRadians
                (case o_parallax of None \<Rightarrow> replicate (length ra) 0 | Some a \<Rightarrow> a))
             (case o_v_rad of None \<Rightarrow> replicate (length ra) 0 | Some a \<Rightarrow> a)
             (pal_mappa pal epoch (fst (TDB ap m))))"
    using assms(1,2) by (rule appGeo_core_divides_once)
qed (use assms in \<open>simp_all only: appGeo_core_default_pm_ra appGeo_wrapper_divides_once
      pm_core_array_divides_once pm_wrapper_divides_once pm_core_float_divides_once
      pm_wrapper_float_divides_once\<close>)

theorem pm_ra_divided_by_cos_dec_once_witness:
  "length [pi / 3] = length [0::real] \<and> length [1::real] = length [0::real]
   \<and> length [0::real] = length [0::real]
   \<and> u_appGeoFromICRS echo_pal no_iers [0] [pi / 3] (Some [1]) None None None 2000
        (Some instant0) = Inr ([2], [pi / 3])
   \<and> u_applyProperMotion echo_pal no_iers (NdArray [0]) (NdArray [pi / 3]) (NdArray [1])
        (NdArray [0]) (NdArray [0]) (NdArray [0]) 2000 (Some instant0) =
        Inr (NdArray [2], NdArray [pi / 3])
   \<and> u_applyProperMotion echo_pal no_iers (Float 0) (Float (pi / 3)) (Float 1)
        (Float 0) (Float 0) (Float 0) 2000 (Some instant0) =
        Inr (Float 2, Float (pi / 3))"
proof -
  have h1: "length [pi / 3] = length [0::real]" by simp
  have h2: "length [1::real] = length [0::real]" by simp
  have h3: "length [0::real] = length [0::real]" by simp
  from pm_ra_divided_by_cos_dec_once [OF h1 h2 h3 h3 h3, of echo_pal no_iers None None None
      2000 instant0 0 "pi / 3" 1 0 0 0]
  show ?thesis by (simp add: echo_pal_def cos_60)
qed

section \<open>The public functions and their radian cores\<close>

text \<open>
  C8, as the specification states it, makes \<^verbatim>\<open>applyRefraction\<close> a degrees wrapper.
  The module has no \<^verbatim>\<open>_applyRefraction\<close>: the function hands the zenith distance to
  the primitive as it is, in radians, so that it differs from the conversion around
  itself.
\<close>

theorem applyRefraction_is_no_wrapper:
  "applyRefraction echo_pal (Float 90) (1 / 10) 0 \<noteq>
   map_sum id np_degrees (applyRefraction echo_pal (np_radians (Float 90)) (1 / 10) 0)"
proof -
  have "pi \<noteq> 180" using pi_less_4 by simp
  then show ?thesis
    by (simp add: applyRefraction_def echo_pal_def np_degrees_def np_radians_def degrees_def
          radians_def field_simps)
qed

text \<open>
  C8 (amended): ten of the twelve public functions are the conversion of the angles to
  radians (of the proper motions and the parallax from arcseconds to radians), the call
  of the core of the same name, and the conversion of the angles it returns to degrees;
  times, epochs, radial velocities, flags and errors pass unchanged.
  \<^verbatim>\<open>applyRefraction\<close> and \<^verbatim>\<open>refractionCoefficients\<close> have no core: they call the
  primitive on their arguments as they are.
\<close>

theorem public_functions_wrap_cores:
  "solarRaDec pal mjd_tdb epoch = map_prod degrees degrees (u_solarRaDec pal mjd_tdb epoch)
   \<and> distanceToSun cu pal v_ra v_dec mjd_tdb epoch =
       np_degrees (u_distanceToSun cu pal (np_radians v_ra) (np_radians v_dec) mjd_tdb epoch)
   \<and> applyPrecession cu pal ap v_ra v_dec epoch mjd =
       map_sum id (map_prod np_degrees np_degrees)
         (u_applyPrecession cu pal ap (np_radians v_ra) (np_radians v_dec) epoch mjd)
   \<and> applyProperMotion pal ap v_ra v_dec v_pm_ra v_pm_dec v_parallax v_v_rad epoch mjd =
       map_sum id (map_prod np_degrees np_degrees)
         (u_applyProperMotion pal ap (np_radians v_ra) (np_radians v_dec)
            (np_map radiansFromArcsec v_pm_ra) (np_map radiansFromArcsec v_pm_dec)
            (np_map radiansFromArcsec v_parallax) v_v_rad epoch mjd)
   \<and> appGeoFromICRS pal ap ra dec pm_ra pm_dec parallax v_rad epoch mjd =
       map_sum id (map_prod (map degrees) (map degrees))
         (u_appGeoFromICRS pal ap (map radians ra) (map radians dec)
            (map_option (map radiansFromArcsec) pm_ra) (map_option (map radiansFromArcsec) pm_dec)
            (map_option (map radiansFromArcsec) parallax) v_rad epoch mjd)
   \<and> icrsFromAppGeo pal ap ra dec epoch mjd =
       map_sum id (map_prod (map degrees) (map degrees))
         (u_icrsFromAppGeo pal ap (map radians ra) (map radians dec) epoch mjd)
   \<and> observedFromAppGeo pal ap ra dec incl altAzHr wavelength obs =
       map_sum id
         (map_prod (map_prod (map degrees) (map degrees))
            (map_option (map_prod (map degrees) (map degrees))))
         (u_observedFromAppGeo pal ap (map radians ra) (map radians dec) incl altAzHr
            wavelength obs)
   \<and> appGeoFromObserved pal ap ra dec incl wavelength obs =
       map_sum id (map_prod (map degrees) (map degrees))
         (u_appGeoFromObserved pal ap (map radians ra) (map radians dec) incl wavelength obs)
   \<and> observedFromICRS pal ap ra dec pm_ra pm_dec parallax v_rad obs o_epoch incl =
       map_sum id (map_prod (map degrees) (map degrees))
         (u_observedFromICRS pal ap (map radians ra) (map radians dec)
            (map_option (map radiansFromArcsec) pm_ra) (map_option (map radiansFromArcsec) pm_dec)
            (map_option (map radiansFromArcsec) parallax) v_rad obs o_epoch incl)
   \<and> icrsFromObserved pal ap ra dec obs o_epoch incl =
       map_sum id (map_prod (map degrees) (map degrees))
         (u_icrsFromObserved pal ap (map radians ra) (map radians dec) obs o_epoch incl)
   \<and> applyRefraction pal (Float z) tanz tan3z = Inr (Float (pal_refz pal z tanz tan3z))
   \<and> applyRefraction pal (NdArray zs) tanz tan3z =
       Inr (NdArray (pal_refzVector pal zs tanz tan3z))
   \<and> refractionCoefficients pal wavelength (Some s) =
       Inr (pal_refco pal (height s) (temperature_kelvin s) (pressure s) (humidity s)
              wavelength (latitude_rad s) (lapseRate s) (1 / 10 ^ 10))"
proof -
  have opt: "(case x of Some a \<Rightarrow> Some (map radiansFromArcsec a) | None \<Rightarrow> None) =
               map_option (map radiansFromArcsec) x" for x
    by (cases x) simp_all
  have p1: "solarRaDec pal mjd_tdb epoch = map_prod degrees degrees (u_solarRaDec pal mjd_tdb epoch)"
    by (simp add: solarRaDec_def split: prod.splits)
  have p2: "distanceToSun cu pal v_ra v_dec mjd_tdb epoch =
       np_degrees (u_distanceToSun cu pal (np_radians v_ra) (np_radians v_dec) mjd_tdb epoch)"
    by (simp add: distanceToSun_def)
  have p3: "applyPrecession cu pal ap v_ra v_dec epoch mjd =
       map_sum id (map_prod np_degrees np_degrees)
         (u_applyPrecession cu pal ap (np_radians v_ra) (np_radians v_dec) epoch mjd)"
    by (simp add: applyPrecession_def bind_e_map_sum)
  have p4: "applyProperMotion pal ap v_ra v_dec v_pm_ra v_pm_dec v_parallax v_v_rad epoch mjd =
       map_sum id (map_prod np_degrees np_degrees)
         (u_applyProperMotion pal ap (np_radians v_ra) (np_radians v_dec)
            (np_map radiansFromArcsec v_pm_ra) (np_map radiansFromArcsec v_pm_dec)
            (np_map radiansFromArcsec v_parallax) v_v_rad epoch mjd)"
    by (simp add: applyProperMotion_def bind_e_map_sum)
  have p5: "appGeoFromICRS pal ap ra dec pm_ra pm_dec parallax v_rad epoch mjd =
       map_sum id (map_prod (map degrees) (map degrees))
         (u_appGeoFromICRS pal ap (map radians ra) (map radians dec)
            (map_option (map radiansFromArcsec) pm_ra) (map_option (map radiansFromArcsec) pm_dec)
            (map_option (map radiansFromArcsec) parallax) v_rad epoch mjd)"
    by (simp add: appGeoFromICRS_def bind_e_map_sum opt)
  have p6: "icrsFromAppGeo pal ap ra dec epoch mjd =
       map_sum id (map_prod (map degrees) (map degrees))
         (u_icrsFromAppGeo pal ap (map radians ra) (map radians dec) epoch mjd)"
    by (simp add: icrsFromAppGeo_def bind_e_map_sum_pair)
  have p7: "observedFromAppGeo pal ap ra dec incl altAzHr wavelength obs =
       map_sum id
         (map_prod (map_prod (map degrees) (map degrees))
            (map_option (map_prod (map degrees) (map degrees))))
         (u_observedFromAppGeo pal ap (map radians ra) (map radians dec) incl altAzHr
            wavelength obs)"
    by (simp add: observedFromAppGeo_def bind_e_map_sum_pair)
  have p8: "appGeoFromObserved pal ap ra dec incl wavelength obs =
       map_sum id (map_prod (map degrees) (map degrees))
         (u_appGeoFromObserved pal ap (map radians ra) (map radians dec) incl wavelength obs)"
    by (simp add: appGeoFromObserved_def bind_e_map_sum_pair)
  have p9: "observedFromICRS pal ap ra dec pm_ra pm_dec parallax v_rad obs o_epoch incl =
       map_sum id (map_prod (map degrees) (map degrees))
         (u_observedFromICRS pal ap (map radians ra) (map radians dec)
            (map_option (map radiansFromArcsec) pm_ra) (map_option (map radiansFromArcsec) pm_dec)
            (map_option (map radiansFromArcsec) parallax) v_rad obs o_epoch incl)"
    by (simp add: observedFromICRS_def bind_e_map_sum opt)
  have p10: "icrsFromObserved pal ap ra dec obs o_epoch incl =
       map_sum id (map_prod (map degrees) (map degrees))
         (u_icrsFromObserved pal ap (map radians ra) (map radians dec) obs o_epoch incl)"
    by (simp add: icrsFromObserved_def bind_e_map_sum_pair)
  have p11: "applyRefraction pal (Float z) tanz tan3z = Inr (Float (pal_refz pal z tanz tan3z))"
    by (simp add: applyRefraction_def)
  have p12: "applyRefraction pal (NdArray zs) tanz tan3z =
       Inr (NdArray (pal_refzVector pal zs tanz tan3z))"
    by (simp add: applyRefraction_def)
  have p13: "refractionCoefficients pal wavelength (Some s) =
       Inr (pal_refco pal (height s) (temperature_kelvin s) (pressure s) (humidity s)
              wavelength (latitude_rad s) (lapseRate s) (1 / 10 ^ 10))"
    by (simp add: refractionCoefficients_def)
  from p1 p2 p3 p4 p5 p6 p7 p8 p9 p10 p11 p12 p13 show ?thesis by blast
qed

theorem public_functions_wrap_cores_witness:
  "icrsFromAppGeo echo_pal no_iers [180] [90] 2000 (Some instant0) = Inr ([180], [90])
   \<and> applyProperMotion echo_pal no_iers (Float 180) (Float 0) (Float 3600) (Float 0) (Float 0)
       (Float 0) 2000 (Some instant0) = Inr (Float 181, Float 0)
   \<and> applyRefraction echo_pal (Float 1) (1 / 10) 0 = Inr (Float (9 / 10))"
proof -
  note w = public_functions_wrap_cores [where pal = echo_pal and ap = no_iers
      and ra = "[180]" and dec = "[90]" and epoch = 2000 and mjd = "Some instant0"
      and v_ra = "Float 180" and v_dec = "Float 0" and v_pm_ra = "Float 3600"
      and v_pm_dec = "Float 0" and v_parallax = "Float 0" and v_v_rad = "Float 0"
      and z = 1 and tanz = "1 / 10" and tan3z = 0]
  have a: "icrsFromAppGeo echo_pal no_iers [180] [90] 2000 (Some instant0) = Inr ([180], [90])"
    using w by (simp add: u_icrsFromAppGeo_def echo_pal_def degrees_def radians_def Let_def)
  have b: "applyProperMotion echo_pal no_iers (Float 180) (Float 0) (Float 3600) (Float 0)
       (Float 0) (Float 0) 2000 (Some instant0) = Inr (Float 181, Float 0)"
    using w
    by (simp add: pm_core_float_divides_once echo_pal_def np_degrees_def np_radians_def
          degrees_def radians_def radiansFromArcsec_def arcsecFromRadians_def field_simps)
  have c: "applyRefraction echo_pal (Float 1) (1 / 10) 0 = Inr (Float (9 / 10))"
    using w by (simp add: echo_pal_def)
  from a b c show ?thesis by simp
qed

end
